theory Spec2Isabelle
  imports Main
begin

section \<open>The LightRAG document hook (use-lightrag.tsx)\<close>

text \<open>
  The hook \<^verbatim>\<open>useLightRAG\<close> keeps a snapshot of the server's documents in React state and
  offers asynchronous actions over it. The embedding is by explicit state passing: the React
  state cells are fields of a record, and three further fields log what the hook does to the
  outside world: the \<^verbatim>\<open>fetch\<close> calls it issues, the \<^verbatim>\<open>toast\<close> notifications
  it shows to the user, and the callbacks it hands to \<^verbatim>\<open>setTimeout\<close>. Console output is not
  modelled: it is not user-facing. What the server answers is a parameter of every action.
\<close>

subsection \<open>Data\<close>

datatype doc_status = Processed | Processing | Failed

record LightRAGDocument =
  doc_id :: string
  content_summary :: string
  content_length :: int
  doc_status :: doc_status
  created_at :: string
  updated_at :: string
  doc_track_id :: "string option"
  chunks_count :: int
  error_msg :: "string option"
  file_path :: string

text \<open>The three status partitions of a list response; the last two may be absent.\<close>

record LightRAGDocumentsResponse =
  processed :: "LightRAGDocument list"
  processing :: "LightRAGDocument list option"
  failed :: "LightRAGDocument list option"

datatype upload_status = Success | Duplicated | UploadError

record LightRAGUploadResponse =
  upload_status :: upload_status
  message :: string
  track_id :: "string option"

text \<open>
  The body of a track-status response is untyped in the source. The hook reads two counters
  of its optional \<^verbatim>\<open>status_summary\<close>, each of which may be missing.
\<close>

record status_summary =
  summary_processed :: "int option"
  summary_processing :: "int option"

record track_status_response =
  status_summary :: "status_summary option"

record File =
  file_name :: string
  file_content :: string

text \<open>A thrown JavaScript error: its name and its message.\<close>

datatype js_error = JsError string string

fun error_message :: "js_error \<Rightarrow> string" where
  "error_message (JsError name msg) = msg"

text \<open>What a template literal prints for an error object.\<close>

fun error_to_string :: "js_error \<Rightarrow> string" where
  "error_to_string (JsError name msg) = name @ '': '' @ msg"

text \<open>
  The four ways one \<^verbatim>\<open>fetch\<close> followed by \<^verbatim>\<open>response.json()\<close> can end: the
  fetch itself rejects (network failure), the response is not ok (status code and status
  text), reading the body rejects, or a parsed body is there.
\<close>

datatype 'a fetch_result =
    FetchRejected js_error
  | NotOk nat string
  | BodyRejected js_error
  | HttpOk 'a

datatype http_method = GET | POST | DELETE

datatype request_body =
    FormDataFile File
  | JsonText string string
  | JsonDelete "string list" bool

record request =
  req_method :: http_method
  req_path :: string
  req_body :: "request_body option"

datatype toast = ToastError string | ToastWarning string | ToastSuccess string

text \<open>A callback given to \<^verbatim>\<open>setTimeout\<close>; a timer is a delay in milliseconds and a task.\<close>

datatype task = ListDocumentsTask | CheckUploadCompleteTask string int

record hook_state =
  documents :: "LightRAGDocument list"
  documentsLoading :: bool
  uploading :: bool
  querying :: bool
  processingDocuments :: "string list"
  updateTrigger :: nat
  requests :: "request list"
  toasts :: "toast list"
  timers :: "(nat \<times> task) list"

definition initial_state :: hook_state where
  "initial_state = \<lparr>documents = [], documentsLoading = False, uploading = False,
     querying = False, processingDocuments = [], updateTrigger = 0,
     requests = [], toasts = [], timers = []\<rparr>"

text \<open>
  An asynchronous function either rejects with an error (\<open>Inl\<close>) or resolves with a value
  (\<open>Inr\<close>).
\<close>

type_synonym 'a promise_result = "js_error + 'a"

subsection \<open>listDocuments\<close>

text \<open>\<^verbatim>\<open>xs || []\<close> on an optional array.\<close>

fun or_empty :: "'a list option \<Rightarrow> 'a list" where
  "or_empty None = []"
| "or_empty (Some xs) = xs"

definition allDocs :: "LightRAGDocumentsResponse \<Rightarrow> LightRAGDocument list" where
  "allDocs data = processed data @ or_empty (processing data) @ or_empty (failed data)"

definition currentProcessing :: "LightRAGDocumentsResponse \<Rightarrow> string list" where
  "currentProcessing data = map doc_id (or_empty (processing data))"

definition list_request :: request where
  "list_request = \<lparr>req_method = GET, req_path = ''/api/rag/documents'', req_body = None\<rparr>"

text \<open>
  The function suspends at its \<^verbatim>\<open>await fetch\<close>. Up to there it sets the loading flag and
  issues the request.
\<close>

definition listDocuments_begin :: "hook_state \<Rightarrow> hook_state" where
  "listDocuments_begin s = s\<lparr>documentsLoading := True, requests := requests s @ [list_request]\<rparr>"

text \<open>The rest of the \<^verbatim>\<open>try\<close> block, run when the answer is there.\<close>

definition listDocuments_try ::
  "LightRAGDocumentsResponse fetch_result \<Rightarrow> hook_state \<Rightarrow>
     js_error + (LightRAGDocument list \<times> hook_state)" where
  "listDocuments_try r s =
     (case r of
        FetchRejected e \<Rightarrow> Inl e
      | NotOk code statusText \<Rightarrow>
          Inl (JsError ''Error'' (''Failed to fetch documents: '' @ statusText))
      | BodyRejected e \<Rightarrow> Inl e
      | HttpOk data \<Rightarrow>
          Inr (allDocs data,
               s\<lparr>processingDocuments := currentProcessing data,
                 documents := allDocs data,
                 updateTrigger := updateTrigger s + 1\<rparr>))"

text \<open>The \<^verbatim>\<open>catch\<close> and \<^verbatim>\<open>finally\<close> blocks around it.\<close>

definition listDocuments_end ::
  "LightRAGDocumentsResponse fetch_result \<Rightarrow> hook_state \<Rightarrow>
     LightRAGDocument list promise_result \<times> hook_state" where
  "listDocuments_end r s =
     (case listDocuments_try r s of
        Inr (docs, s') \<Rightarrow> (Inr docs, s'\<lparr>documentsLoading := False\<rparr>)
      | Inl e \<Rightarrow>
          (Inr [],
           s\<lparr>toasts := toasts s @ [ToastError (''Failed to fetch documents: '' @ error_message e)],
             documentsLoading := False\<rparr>))"

text \<open>One call of \<^verbatim>\<open>listDocuments\<close> that nothing else interleaves with.\<close>

definition listDocuments ::
  "LightRAGDocumentsResponse fetch_result \<Rightarrow> hook_state \<Rightarrow>
     LightRAGDocument list promise_result \<times> hook_state" where
  "listDocuments r s = listDocuments_end r (listDocuments_begin s)"

subsection \<open>checkUploadComplete\<close>

text \<open>\<^verbatim>\<open>x > 0\<close> and \<^verbatim>\<open>!x\<close> on a counter that may be undefined.\<close>

fun js_gt0 :: "int option \<Rightarrow> bool" where
  "js_gt0 None = False"
| "js_gt0 (Some n) = (0 < n)"

fun js_not :: "int option \<Rightarrow> bool" where
  "js_not None = True"
| "js_not (Some n) = (n = 0)"

definition isComplete :: "track_status_response \<Rightarrow> bool" where
  "isComplete data =
     (js_gt0 (Option.bind (status_summary data) summary_processed) \<and>
      js_not (Option.bind (status_summary data) summary_processing))"

definition isStillProcessing :: "track_status_response \<Rightarrow> bool" where
  "isStillProcessing data = js_gt0 (Option.bind (status_summary data) summary_processing)"

definition track_request :: "string \<Rightarrow> request" where
  "track_request trackId =
     \<lparr>req_method = GET, req_path = ''/documents/track_status/'' @ trackId, req_body = None\<rparr>"

text \<open>
  One attempt: one status query with answer \<open>r\<close>. Where the attempt refreshes the catalog,
  \<open>lr\<close> is what the list request is answered with. A failed query ends the attempt with
  nothing but a console message.
\<close>

definition checkUploadComplete ::
  "string \<Rightarrow> int \<Rightarrow> track_status_response fetch_result \<Rightarrow>
     LightRAGDocumentsResponse fetch_result \<Rightarrow> hook_state \<Rightarrow> hook_state" where
  "checkUploadComplete trackId maxAttempts r lr s =
     (let s1 = s\<lparr>requests := requests s @ [track_request trackId]\<rparr> in
      case r of
        FetchRejected e \<Rightarrow> s1
      | NotOk code statusText \<Rightarrow> s1
      | BodyRejected e \<Rightarrow> s1
      | HttpOk data \<Rightarrow>
          if isComplete data then snd (listDocuments lr s1)
          else if isStillProcessing data \<and> 0 < maxAttempts then
            s1\<lparr>timers := timers s1 @ [(2000, CheckUploadCompleteTask trackId (maxAttempts - 1))]\<rparr>
          else snd (listDocuments lr s1))"

text \<open>
  The polling sequence of one tracking handle: each attempt takes the next status answer;
  when an attempt has set the timer for the next one and another answer is there, the timer
  fires and the next attempt runs. The sequence is over when an attempt sets no timer.
\<close>

fun poll_sequence ::
  "string \<Rightarrow> int \<Rightarrow> track_status_response fetch_result list \<Rightarrow>
     LightRAGDocumentsResponse fetch_result \<Rightarrow> hook_state \<Rightarrow> hook_state" where
  "poll_sequence trackId maxAttempts [] lr s = s"
| "poll_sequence trackId maxAttempts (r # rs) lr s =
     (let s' = checkUploadComplete trackId maxAttempts r lr s in
      if rs \<noteq> [] \<and>
         timers s' = timers s @ [(2000, CheckUploadCompleteTask trackId (maxAttempts - 1))]
      then poll_sequence trackId (maxAttempts - 1) rs lr (s'\<lparr>timers := timers s\<rparr>)
      else s')"

subsection \<open>uploadFile and uploadText\<close>

definition upload_file_request :: "File \<Rightarrow> request" where
  "upload_file_request f =
     \<lparr>req_method = POST, req_path = ''/api/rag/documents/upload'',
      req_body = Some (FormDataFile f)\<rparr>"

text \<open>
  The success branch shared, word for word, by both upload functions: an immediate refresh,
  a second one after a second, and a completion check after three seconds when the response
  carries a (non-empty) tracking handle.
\<close>

definition smart_refresh ::
  "string option \<Rightarrow> LightRAGDocumentsResponse fetch_result \<Rightarrow> hook_state \<Rightarrow> hook_state" where
  "smart_refresh tid lr s =
     (let s2 = snd (listDocuments lr s);
          s3 = s2\<lparr>timers := timers s2 @ [(1000, ListDocumentsTask)]\<rparr>
      in case tid of
           None \<Rightarrow> s3
         | Some t \<Rightarrow>
             if t \<noteq> [] then s3\<lparr>timers := timers s3 @ [(3000, CheckUploadCompleteTask t 10)]\<rparr>
             else s3)"

definition uploadFile_try ::
  "File \<Rightarrow> LightRAGUploadResponse fetch_result \<Rightarrow> LightRAGDocumentsResponse fetch_result \<Rightarrow>
     hook_state \<Rightarrow> (js_error + LightRAGUploadResponse) \<times> hook_state" where
  "uploadFile_try f r lr s =
     (let s1 = s\<lparr>requests := requests s @ [upload_file_request f]\<rparr> in
      case r of
        FetchRejected e \<Rightarrow> (Inl e, s1)
      | NotOk code statusText \<Rightarrow> (Inl (JsError ''Error'' (''Upload failed: '' @ statusText)), s1)
      | BodyRejected e \<Rightarrow> (Inl e, s1)
      | HttpOk result \<Rightarrow>
          if upload_status result = Success then
            (Inr result, smart_refresh (track_id result) lr s1)
          else if upload_status result = Duplicated then
            (Inr result, s1\<lparr>toasts := toasts s1 @ [ToastWarning (message result)]\<rparr>)
          else (Inr result, s1))"

definition uploadFile ::
  "File \<Rightarrow> LightRAGUploadResponse fetch_result \<Rightarrow> LightRAGDocumentsResponse fetch_result \<Rightarrow>
     hook_state \<Rightarrow> LightRAGUploadResponse option promise_result \<times> hook_state" where
  "uploadFile f r lr s =
     (case uploadFile_try f r lr (s\<lparr>uploading := True\<rparr>) of
        (Inr result, s') \<Rightarrow> (Inr (Some result), s'\<lparr>uploading := False\<rparr>)
      | (Inl e, s') \<Rightarrow>
          (Inr None,
           s'\<lparr>toasts := toasts s' @ [ToastError (''Failed to upload file: '' @ error_to_string e)],
              uploading := False\<rparr>))"

text \<open>
  The default file name of a text upload, from the current time \<open>now\<close> in ISO format:
  its first 19 characters with every colon replaced by a hyphen.
\<close>

definition default_filename :: "string \<Rightarrow> string" where
  "default_filename now =
     ''text_document_'' @ map (\<lambda>c. if c = CHR '':'' then CHR ''-'' else c) (take 19 now) @ ''.txt''"

text \<open>\<^verbatim>\<open>filename || default\<close>: a missing or empty name gives the default.\<close>

fun payload_filename :: "string option \<Rightarrow> string \<Rightarrow> string" where
  "payload_filename None now = default_filename now"
| "payload_filename (Some n) now = (if n = [] then default_filename now else n)"

definition upload_text_request :: "string \<Rightarrow> string \<Rightarrow> request" where
  "upload_text_request txt filename =
     \<lparr>req_method = POST, req_path = ''/api/rag/documents/text'',
      req_body = Some (JsonText txt filename)\<rparr>"

definition uploadText_try ::
  "string \<Rightarrow> string option \<Rightarrow> string \<Rightarrow> LightRAGUploadResponse fetch_result \<Rightarrow>
     LightRAGDocumentsResponse fetch_result \<Rightarrow>
     hook_state \<Rightarrow> (js_error + LightRAGUploadResponse) \<times> hook_state" where
  "uploadText_try txt filename now r lr s =
     (let s1 = s\<lparr>requests := requests s @ [upload_text_request txt (payload_filename filename now)]\<rparr> in
      case r of
        FetchRejected e \<Rightarrow> (Inl e, s1)
      | NotOk code statusText \<Rightarrow>
          (Inl (JsError ''Error'' (''Text upload failed: '' @ statusText)), s1)
      | BodyRejected e \<Rightarrow> (Inl e, s1)
      | HttpOk result \<Rightarrow>
          if upload_status result = Success then
            (Inr result, smart_refresh (track_id result) lr s1)
          else (Inr result, s1))"

definition uploadText ::
  "string \<Rightarrow> string option \<Rightarrow> string \<Rightarrow> LightRAGUploadResponse fetch_result \<Rightarrow>
     LightRAGDocumentsResponse fetch_result \<Rightarrow>
     hook_state \<Rightarrow> LightRAGUploadResponse option promise_result \<times> hook_state" where
  "uploadText txt filename now r lr s =
     (case uploadText_try txt filename now r lr (s\<lparr>uploading := True\<rparr>) of
        (Inr result, s') \<Rightarrow> (Inr (Some result), s'\<lparr>uploading := False\<rparr>)
      | (Inl e, s') \<Rightarrow>
          (Inr None,
           s'\<lparr>toasts := toasts s' @ [ToastError (''Failed to upload text: '' @ error_to_string e)],
              uploading := False\<rparr>))"

subsection \<open>deleteDocument and clearDocuments\<close>

definition delete_request :: "string \<Rightarrow> request" where
  "delete_request documentId =
     \<lparr>req_method = DELETE, req_path = ''/documents/delete_document'',
      req_body = Some (JsonDelete [documentId] True)\<rparr>"

text \<open>
  The hook reads no body from the answers to the two delete requests: an answer counts as
  a success as soon as it is ok.
\<close>

definition deleteDocument ::
  "string \<Rightarrow> unit fetch_result \<Rightarrow> hook_state \<Rightarrow> bool promise_result \<times> hook_state" where
  "deleteDocument documentId r s =
     (let s1 = s\<lparr>requests := requests s @ [delete_request documentId]\<rparr>;
          catch = (\<lambda>e. (Inr False,
            s1\<lparr>toasts := toasts s1 @ [ToastError (''Failed to delete document: '' @ error_to_string e)]\<rparr>))
      in case r of
           FetchRejected e \<Rightarrow> catch e
         | NotOk code statusText \<Rightarrow> catch (JsError ''Error'' (''Delete failed: '' @ statusText))
         | BodyRejected e \<Rightarrow>
             (Inr True,
              s1\<lparr>toasts := toasts s1 @
                    [ToastSuccess ''Document deletion initiated. Processing in background...''],
                 timers := timers s1 @ [(1000, ListDocumentsTask)]\<rparr>)
         | HttpOk u \<Rightarrow>
             (Inr True,
              s1\<lparr>toasts := toasts s1 @
                    [ToastSuccess ''Document deletion initiated. Processing in background...''],
                 timers := timers s1 @ [(1000, ListDocumentsTask)]\<rparr>))"

definition clear_request :: request where
  "clear_request = \<lparr>req_method = DELETE, req_path = ''/api/rag/documents'', req_body = None\<rparr>"

definition clearDocuments ::
  "unit fetch_result \<Rightarrow> hook_state \<Rightarrow> bool promise_result \<times> hook_state" where
  "clearDocuments r s =
     (let s1 = s\<lparr>requests := requests s @ [clear_request]\<rparr>;
          catch = (\<lambda>e. (Inr False,
            s1\<lparr>toasts := toasts s1 @ [ToastError (''Failed to clear documents: '' @ error_to_string e)]\<rparr>))
      in case r of
           FetchRejected e \<Rightarrow> catch e
         | NotOk code statusText \<Rightarrow> catch (JsError ''Error'' (''Clear failed: '' @ statusText))
         | BodyRejected e \<Rightarrow>
             (Inr True,
              s1\<lparr>toasts := toasts s1 @ [ToastSuccess ''All documents cleared successfully''],
                 documents := []\<rparr>)
         | HttpOk u \<Rightarrow>
             (Inr True,
              s1\<lparr>toasts := toasts s1 @ [ToastSuccess ''All documents cleared successfully''],
                 documents := []\<rparr>))"

subsection \<open>Interleaved refreshes\<close>

text \<open>
  JavaScript runs one callback at a time, and \<^verbatim>\<open>listDocuments\<close> suspends once, at its
  fetch. Calls that overlap are therefore a sequence of two kinds of events: a call starts,
  or the answer to the request that was started as number \<open>i\<close> arrives.
\<close>

datatype refresh_event =
    RefreshStart
  | RefreshArrive nat "LightRAGDocumentsResponse fetch_result"

fun refresh_step :: "hook_state \<Rightarrow> refresh_event \<Rightarrow> hook_state" where
  "refresh_step s RefreshStart = listDocuments_begin s"
| "refresh_step s (RefreshArrive i r) = snd (listDocuments_end r s)"

definition run_refreshes :: "refresh_event list \<Rightarrow> hook_state \<Rightarrow> hook_state" where
  "run_refreshes evs s = foldl refresh_step s evs"

text \<open>The listing of the successful answer that arrived last, if there is one.\<close>

fun last_arrived ::
  "LightRAGDocumentsResponse option \<Rightarrow> refresh_event \<Rightarrow> LightRAGDocumentsResponse option" where
  "last_arrived prev (RefreshArrive i (HttpOk d)) = Some d"
| "last_arrived prev ev = prev"

fun is_start :: "refresh_event \<Rightarrow> bool" where
  "is_start RefreshStart = True"
| "is_start (RefreshArrive i r) = False"

subsection \<open>Observations on a state\<close>

text \<open>How many catalog refreshes and how many status queries for a handle were issued.\<close>

definition refresh_count :: "hook_state \<Rightarrow> nat" where
  "refresh_count s = length (filter (\<lambda>q. q = list_request) (requests s))"

definition status_query_count :: "string \<Rightarrow> hook_state \<Rightarrow> nat" where
  "status_query_count trackId s = length (filter (\<lambda>q. q = track_request trackId) (requests s))"

text \<open>A request that was answered with a body the hook could parse, and one that was ok.\<close>

fun parsed_ok :: "'a fetch_result \<Rightarrow> bool" where
  "parsed_ok (HttpOk x) = True"
| "parsed_ok r = False"

fun response_ok :: "'a fetch_result \<Rightarrow> bool" where
  "response_ok (FetchRejected e) = False"
| "response_ok (NotOk code statusText) = False"
| "response_ok r = True"

text \<open>A status answer that reports documents still in processing, and one that is complete.\<close>

fun still_processing :: "track_status_response fetch_result \<Rightarrow> bool" where
  "still_processing (HttpOk data) = isStillProcessing data"
| "still_processing r = False"

fun complete :: "track_status_response fetch_result \<Rightarrow> bool" where
  "complete (HttpOk data) = isComplete data"
| "complete r = False"

subsection \<open>The specification's readings\<close>

text \<open>
  The specification's rule for overlapping refreshes, in its words: the catalog is the
  listing of the completed request that was started last. \<open>later_start\<close> keeps, of the
  successful answers seen so far, the one whose request has the greatest start number.
\<close>

fun later_start ::
  "(nat \<times> LightRAGDocumentsResponse) option \<Rightarrow> refresh_event \<Rightarrow>
     (nat \<times> LightRAGDocumentsResponse) option" where
  "later_start None (RefreshArrive i (HttpOk d)) = Some (i, d)"
| "later_start (Some (j, d')) (RefreshArrive i (HttpOk d)) =
     (if j < i then Some (i, d) else Some (j, d'))"
| "later_start best ev = best"

definition latest_start_wins :: "refresh_event list \<Rightarrow> hook_state \<Rightarrow> bool" where
  "latest_start_wins evs s =
     (documents (run_refreshes evs s) =
        (case foldl later_start None evs of
           None \<Rightarrow> documents s
         | Some (i, d) \<Rightarrow> allDocs d))"

text \<open>
  The specification's end of a polling sequence that gave up: no attempt is pending any
  more, and exactly one further catalog refresh was issued.
\<close>

definition ended_with_refresh :: "hook_state \<Rightarrow> hook_state \<Rightarrow> bool" where
  "ended_with_refresh s s' = (timers s' = timers s \<and> refresh_count s' = refresh_count s + 1)"

text \<open>The specification's fatal outcome of a call: the caller gets an error.\<close>

fun caller_receives_error :: "'a promise_result \<Rightarrow> bool" where
  "caller_receives_error (Inl e) = True"
| "caller_receives_error (Inr v) = False"

text \<open>
  The specification's Processing Indicator Set: the identifiers of the catalog entries whose
  status is the non-terminal one.
\<close>

definition indicator_consistent :: "hook_state \<Rightarrow> bool" where
  "indicator_consistent s =
     (processingDocuments s = map doc_id (filter (\<lambda>d. doc_status d = Processing) (documents s)))"

subsection \<open>Sample data\<close>

definition example_document :: "string \<Rightarrow> doc_status \<Rightarrow> LightRAGDocument" where
  "example_document i st =
     \<lparr>doc_id = i, content_summary = ''hello world'', content_length = 11, doc_status = st,
      created_at = ''2025-01-01T00:00:00'', updated_at = ''2025-01-01T00:00:00'',
      doc_track_id = None, chunks_count = 1, error_msg = None, file_path = ''note.txt''\<rparr>"

definition empty_listing :: LightRAGDocumentsResponse where
  "empty_listing = \<lparr>processed = [], processing = None, failed = None\<rparr>"

definition listing_of :: "LightRAGDocument list \<Rightarrow> LightRAGDocument list \<Rightarrow> LightRAGDocumentsResponse" where
  "listing_of done busy = \<lparr>processed = done, processing = Some busy, failed = None\<rparr>"

definition summary_of :: "int \<Rightarrow> int \<Rightarrow> track_status_response" where
  "summary_of p q =
     \<lparr>status_summary = Some \<lparr>summary_processed = Some p, summary_processing = Some q\<rparr>\<rparr>"

section \<open>Properties\<close>

subsection \<open>What one refresh and one status query do\<close>

lemma listDocuments_timers: "timers (snd (listDocuments lr s)) = timers s"
  by (cases lr) (simp_all add: listDocuments_def listDocuments_end_def listDocuments_try_def
      listDocuments_begin_def)

lemma listDocuments_requests: "requests (snd (listDocuments lr s)) = requests s @ [list_request]"
  by (cases lr) (simp_all add: listDocuments_def listDocuments_end_def listDocuments_try_def
      listDocuments_begin_def)

lemma track_request_neq_list: "track_request t \<noteq> list_request"
  by (simp add: track_request_def list_request_def)

lemma listDocuments_refresh_count:
  "refresh_count (snd (listDocuments lr s)) = refresh_count s + 1"
  by (simp add: refresh_count_def listDocuments_requests)

lemma listDocuments_status_query_count:
  "status_query_count t (snd (listDocuments lr s)) = status_query_count t s"
  by (simp add: status_query_count_def listDocuments_requests track_request_neq_list[symmetric])

lemma still_not_complete: "isStillProcessing d \<Longrightarrow> \<not> isComplete d"
  by (cases "Option.bind (status_summary d) summary_processing")
     (simp_all add: isStillProcessing_def isComplete_def)

lemma check_still:
  "isStillProcessing d \<Longrightarrow> 0 < n \<Longrightarrow>
   checkUploadComplete t n (HttpOk d) lr s =
     s\<lparr>requests := requests s @ [track_request t],
       timers := timers s @ [(2000, CheckUploadCompleteTask t (n - 1))]\<rparr>"
  by (simp add: checkUploadComplete_def still_not_complete)

lemma check_complete:
  "isComplete d \<Longrightarrow>
   checkUploadComplete t n (HttpOk d) lr s =
     snd (listDocuments lr (s\<lparr>requests := requests s @ [track_request t]\<rparr>))"
  by (simp add: checkUploadComplete_def)

lemma check_exhausted:
  "isStillProcessing d \<Longrightarrow> n \<le> 0 \<Longrightarrow>
   checkUploadComplete t n (HttpOk d) lr s =
     snd (listDocuments lr (s\<lparr>requests := requests s @ [track_request t]\<rparr>))"
  by (simp add: checkUploadComplete_def still_not_complete)

subsection \<open>Counting requests\<close>

lemma count_replicate:
  "status_query_count t (s\<lparr>requests := requests s @ replicate n (track_request t)\<rparr>) =
     status_query_count t s + n"
  by (simp add: status_query_count_def)

lemma refresh_replicate:
  "refresh_count (s\<lparr>requests := requests s @ replicate n (track_request t)\<rparr>) = refresh_count s"
  by (simp add: refresh_count_def track_request_neq_list)

lemma count_track:
  "status_query_count t (s\<lparr>requests := requests s @ [track_request t]\<rparr>) =
     status_query_count t s + 1"
  by (simp add: status_query_count_def)

lemma refresh_track:
  "refresh_count (s\<lparr>requests := requests s @ [track_request t]\<rparr>) = refresh_count s"
  by (simp add: refresh_count_def track_request_neq_list)

text \<open>
  While the answers report documents in processing and the budget is positive, each attempt
  only issues its query and sets the timer for the next one.
\<close>

lemma poll_prefix:
  "\<forall>r\<in>set pre. still_processing r \<Longrightarrow> int (length pre) \<le> N \<Longrightarrow> rest \<noteq> [] \<Longrightarrow>
   poll_sequence t N (pre @ rest) lr s =
     poll_sequence t (N - int (length pre)) rest lr
       (s\<lparr>requests := requests s @ replicate (length pre) (track_request t)\<rparr>)"
proof (induction pre arbitrary: N s)
  case Nil
  then show ?case by simp
next
  case (Cons r pre)
  from Cons.prems(1) obtain d where r: "r = HttpOk d" and d: "isStillProcessing d"
    by (cases r) auto
  from Cons.prems(2) have N: "0 < N" by simp
  have step: "checkUploadComplete t N r lr s =
     s\<lparr>requests := requests s @ [track_request t],
       timers := timers s @ [(2000, CheckUploadCompleteTask t (N - 1))]\<rparr>"
    using check_still[OF d N] r by simp
  have "poll_sequence t N ((r # pre) @ rest) lr s =
        poll_sequence t (N - 1) (pre @ rest) lr (s\<lparr>requests := requests s @ [track_request t]\<rparr>)"
    using Cons.prems(3) by (simp add: step)
  also have "\<dots> = poll_sequence t (N - 1 - int (length pre)) rest lr
       (s\<lparr>requests := requests s @ [track_request t] @ replicate (length pre) (track_request t)\<rparr>)"
    using Cons.IH[of "N - 1" "s\<lparr>requests := requests s @ [track_request t]\<rparr>"] Cons.prems
    by simp
  finally show ?case by (simp add: algebra_simps)
qed

text \<open>
  An attempt that refreshes the catalog sets no timer, so it is the last of its sequence.
\<close>

lemma poll_last_refresh:
  assumes "checkUploadComplete t n r lr s =
             snd (listDocuments lr (s\<lparr>requests := requests s @ [track_request t]\<rparr>))"
  shows "poll_sequence t n (r # rest) lr s =
             snd (listDocuments lr (s\<lparr>requests := requests s @ [track_request t]\<rparr>))"
  by (simp add: assms listDocuments_timers)

subsection \<open>One refresh event\<close>

lemma refresh_step_documents:
  "documents (refresh_step s ev) =
     (case last_arrived None ev of None \<Rightarrow> documents s | Some d \<Rightarrow> allDocs d)"
proof (cases ev)
  case RefreshStart
  then show ?thesis by (simp add: listDocuments_begin_def)
next
  case (RefreshArrive i r)
  then show ?thesis
    by (cases r) (simp_all add: listDocuments_end_def listDocuments_try_def)
qed

lemma refresh_step_processing:
  "processingDocuments (refresh_step s ev) =
     (case last_arrived None ev of None \<Rightarrow> processingDocuments s | Some d \<Rightarrow> currentProcessing d)"
proof (cases ev)
  case RefreshStart
  then show ?thesis by (simp add: listDocuments_begin_def)
next
  case (RefreshArrive i r)
  then show ?thesis
    by (cases r) (simp_all add: listDocuments_end_def listDocuments_try_def)
qed

lemma refresh_step_requests:
  "requests (refresh_step s ev) = requests s @ (if is_start ev then [list_request] else [])"
proof (cases ev)
  case RefreshStart
  then show ?thesis by (simp add: listDocuments_begin_def)
next
  case (RefreshArrive i r)
  then show ?thesis
    by (cases r) (simp_all add: listDocuments_end_def listDocuments_try_def)
qed

lemma last_arrived_step:
  "last_arrived prev ev = (case last_arrived None ev of None \<Rightarrow> prev | Some d \<Rightarrow> Some d)"
  by (induction prev ev rule: last_arrived.induct) simp_all

subsection \<open>Overlapping refreshes\<close>

text \<open>
  C1, as the hook behaves: after any sequence of starts and arrivals, the catalog and the
  processing indicators are those of the successful answer that arrived last (or unchanged
  when no answer was successful), whatever the order in which the requests were started; and
  every started call issued its own list request.
\<close>

theorem last_arrival_wins:
  "documents (run_refreshes evs s) =
     (case foldl last_arrived None evs of None \<Rightarrow> documents s | Some d \<Rightarrow> allDocs d)
   \<and> processingDocuments (run_refreshes evs s) =
     (case foldl last_arrived None evs of
        None \<Rightarrow> processingDocuments s
      | Some d \<Rightarrow> currentProcessing d)
   \<and> requests (run_refreshes evs s) =
       requests s @ replicate (length (filter is_start evs)) list_request"
proof (induction evs rule: rev_induct)
  case Nil
  show ?case by (simp add: run_refreshes_def)
next
  case (snoc ev evs)
  let ?s = "foldl refresh_step s evs"
  have docs: "documents (run_refreshes (evs @ [ev]) s) =
      (case foldl last_arrived None (evs @ [ev]) of None \<Rightarrow> documents s | Some d \<Rightarrow> allDocs d)"
    using snoc.IH last_arrived_step[of "foldl last_arrived None evs" ev]
    by (simp add: run_refreshes_def refresh_step_documents split: option.splits)
  have procs: "processingDocuments (run_refreshes (evs @ [ev]) s) =
      (case foldl last_arrived None (evs @ [ev]) of
         None \<Rightarrow> processingDocuments s
       | Some d \<Rightarrow> currentProcessing d)"
    using snoc.IH last_arrived_step[of "foldl last_arrived None evs" ev]
    by (simp add: run_refreshes_def refresh_step_processing split: option.splits)
  have reqs: "requests (run_refreshes (evs @ [ev]) s) =
       requests s @ replicate (length (filter is_start (evs @ [ev]))) list_request"
    using snoc.IH
    by (simp add: run_refreshes_def refresh_step_requests replicate_append_same)
  from docs procs reqs show ?case by simp
qed

text \<open>
  C1. The claim: after any interleaving of refresh calls the catalog is the listing of the
  completed request that was started last, and overlapping calls share one fetch. The hook
  has neither a start-time order nor coalescing. Request 0 starts, request 1 starts, the
  answer to request 1 arrives (document d1 processed), then the older answer to request 0
  arrives (d1 still processing) and replaces the fresher catalog.
\<close>

theorem stale_response_overwrites:
  "\<not> latest_start_wins
       [RefreshStart, RefreshStart,
        RefreshArrive 1 (HttpOk (listing_of [example_document ''d1'' Processed] [])),
        RefreshArrive 0 (HttpOk (listing_of [] [example_document ''d1'' Processing]))]
       initial_state"
  by (simp add: latest_start_wins_def run_refreshes_def listDocuments_begin_def
      listDocuments_end_def listDocuments_try_def allDocs_def listing_of_def
      example_document_def initial_state_def)

subsection \<open>A status query that fails\<close>

text \<open>
  C2, as the hook behaves. A status query that fails (the fetch rejects, the response is not
  ok, or its body cannot be read) ends the sequence silently: no catalog refresh, no timer for
  a further attempt, no notification, catalog and indicators untouched. An answer that still
  reports processing when no attempt is left ends the sequence with exactly one catalog
  refresh, and the only notifications are those of that refresh itself.
\<close>

theorem failed_query_ends_silently:
  "(\<not> parsed_ok r \<longrightarrow>
      refresh_count (checkUploadComplete t n r lr s) = refresh_count s
    \<and> timers (checkUploadComplete t n r lr s) = timers s
    \<and> toasts (checkUploadComplete t n r lr s) = toasts s
    \<and> documents (checkUploadComplete t n r lr s) = documents s
    \<and> processingDocuments (checkUploadComplete t n r lr s) = processingDocuments s)
 \<and> (isStillProcessing d \<and> m \<le> 0 \<longrightarrow>
      ended_with_refresh s (checkUploadComplete t m (HttpOk d) lr s)
    \<and> toasts (checkUploadComplete t m (HttpOk d) lr s) = toasts (snd (listDocuments lr s)))"
proof (intro conjI impI)
  assume "\<not> parsed_ok r"
  then have eq: "checkUploadComplete t n r lr s = s\<lparr>requests := requests s @ [track_request t]\<rparr>"
    by (cases r) (simp_all add: checkUploadComplete_def)
  show "refresh_count (checkUploadComplete t n r lr s) = refresh_count s"
    unfolding eq by (rule refresh_track)
  show "timers (checkUploadComplete t n r lr s) = timers s" unfolding eq by simp
  show "toasts (checkUploadComplete t n r lr s) = toasts s" unfolding eq by simp
  show "documents (checkUploadComplete t n r lr s) = documents s" unfolding eq by simp
  show "processingDocuments (checkUploadComplete t n r lr s) = processingDocuments s"
    unfolding eq by simp
next
  assume "isStillProcessing d \<and> m \<le> 0"
  then have eq: "checkUploadComplete t m (HttpOk d) lr s =
      snd (listDocuments lr (s\<lparr>requests := requests s @ [track_request t]\<rparr>))"
    by (simp add: check_exhausted)
  show "ended_with_refresh s (checkUploadComplete t m (HttpOk d) lr s)"
    unfolding eq ended_with_refresh_def listDocuments_timers listDocuments_refresh_count
      refresh_track by simp
  show "toasts (checkUploadComplete t m (HttpOk d) lr s) = toasts (snd (listDocuments lr s))"
    unfolding eq
    by (cases lr) (simp_all add: listDocuments_def listDocuments_end_def listDocuments_try_def
        listDocuments_begin_def)
qed

text \<open>
  The two cases at a handle \<open>t1\<close>: a rejected fetch, and a still-processing answer with
  no attempts left.
\<close>

theorem failed_query_ends_silently_witness:
  "\<not> parsed_ok (FetchRejected (JsError ''TypeError'' ''Failed to fetch'') :: track_status_response fetch_result)
   \<and> isStillProcessing (summary_of 0 1) \<and> (0::int) \<le> 0
   \<and> refresh_count (checkUploadComplete ''t1'' 10
        (FetchRejected (JsError ''TypeError'' ''Failed to fetch'')) (HttpOk empty_listing)
        initial_state) = 0
   \<and> toasts (checkUploadComplete ''t1'' 10
        (FetchRejected (JsError ''TypeError'' ''Failed to fetch'')) (HttpOk empty_listing)
        initial_state) = []
   \<and> ended_with_refresh initial_state
        (checkUploadComplete ''t1'' 0 (HttpOk (summary_of 0 1)) (HttpOk empty_listing)
           initial_state)"
proof -
  have h1: "\<not> parsed_ok (FetchRejected (JsError ''TypeError'' ''Failed to fetch'') :: track_status_response fetch_result)"
    by simp
  have h2: "isStillProcessing (summary_of 0 1) \<and> (0::int) \<le> 0"
    by (simp add: isStillProcessing_def summary_of_def)
  have s0: "refresh_count initial_state = 0" "toasts initial_state = []"
    by (simp_all add: refresh_count_def initial_state_def)
  show ?thesis
    using h1 h2
      failed_query_ends_silently[of "FetchRejected (JsError ''TypeError'' ''Failed to fetch'')"
        "''t1''" 10 "HttpOk empty_listing" initial_state "summary_of 0 1" 0]
    by (simp only: s0) simp
qed

text \<open>
  C2. The claim: when the status query fails, the sequence ends with one final catalog
  refresh. In the hook a response that is not ok returns at once: with an answer of HTTP 500
  no list request is issued.
\<close>

theorem failed_query_no_refresh:
  "\<not> ended_with_refresh initial_state
       (checkUploadComplete ''t1'' 10 (NotOk 500 ''Internal Server Error'')
          (HttpOk empty_listing) initial_state)"
  by (simp add: ended_with_refresh_def checkUploadComplete_def initial_state_def
      refresh_count_def track_request_def list_request_def)

subsection \<open>A duplicated submission\<close>

text \<open>
  C3. The claim: on a response with status duplicated both entry points surface a warning
  and behave identically. At the same duplicated response \<^verbatim>\<open>uploadFile\<close> shows the
  server's message as a warning, and \<^verbatim>\<open>uploadText\<close>, which has no branch for this
  status, shows nothing.
\<close>

theorem uploadText_duplicated_shows_no_warning:
  "toasts (snd (uploadText ''hello world'' (Some ''note.txt'') ''2025-01-01T00:00:00.000Z''
       (HttpOk \<lparr>upload_status = Duplicated, message = ''Document already exists'', track_id = None\<rparr>)
       (HttpOk empty_listing) initial_state)) = []
   \<and> toasts (snd (uploadFile \<lparr>file_name = ''note.txt'', file_content = ''hello world''\<rparr>
       (HttpOk \<lparr>upload_status = Duplicated, message = ''Document already exists'', track_id = None\<rparr>)
       (HttpOk empty_listing) initial_state)) = [ToastWarning ''Document already exists'']"
  by (simp add: uploadText_def uploadText_try_def uploadFile_def uploadFile_try_def
      initial_state_def)

subsection \<open>The attempt budget\<close>

text \<open>
  C4, as the hook behaves: a sequence that starts with budget N (not negative) gives up on
  the answer number N + 1 that still reports processing. It has then issued exactly N + 1
  status queries, however many further answers would be available, exactly one catalog
  refresh, and no timer is pending.
\<close>

theorem exhausted_after_budget_plus_one:
  assumes "\<forall>r\<in>set rs. still_processing r"
    and "0 \<le> N"
    and "length rs = nat N + 1"
  shows "status_query_count t (poll_sequence t N (rs @ rest) lr s) =
           status_query_count t s + nat N + 1
       \<and> refresh_count (poll_sequence t N (rs @ rest) lr s) = refresh_count s + 1
       \<and> timers (poll_sequence t N (rs @ rest) lr s) = timers s"
proof -
  from assms(3) obtain pre r where rs: "rs = pre @ [r]" and len: "length pre = nat N"
    by (cases rs rule: rev_cases) auto
  let ?s1 = "s\<lparr>requests := requests s @ replicate (length pre) (track_request t)\<rparr>"
  let ?s2 = "?s1\<lparr>requests := requests ?s1 @ [track_request t]\<rparr>"
  from assms(1) rs obtain d where r: "r = HttpOk d" and d: "isStillProcessing d"
    by (cases r) auto
  have pre: "\<forall>r\<in>set pre. still_processing r" using assms(1) rs by simp
  have le: "int (length pre) \<le> N" using len assms(2) by simp
  have z: "N - int (length pre) \<le> 0" using len assms(2) by simp
  have "poll_sequence t N (rs @ rest) lr s =
        poll_sequence t (N - int (length pre)) (r # rest) lr ?s1"
    using poll_prefix[OF pre le, of "r # rest"] rs by simp
  also have "\<dots> = snd (listDocuments lr ?s2)"
    unfolding r by (rule poll_last_refresh[OF check_exhausted[OF d z]])
  finally have eq: "poll_sequence t N (rs @ rest) lr s = snd (listDocuments lr ?s2)" .
  have a: "status_query_count t (snd (listDocuments lr ?s2)) = status_query_count t s + nat N + 1"
    unfolding listDocuments_status_query_count count_track count_replicate len by simp
  have b: "refresh_count (snd (listDocuments lr ?s2)) = refresh_count s + 1"
    unfolding listDocuments_refresh_count refresh_track refresh_replicate by simp
  have c: "timers (snd (listDocuments lr ?s2)) = timers s"
    unfolding listDocuments_timers by simp
  show ?thesis unfolding eq using a b c by simp
qed

text \<open>
  The default budget of 10 and eleven still-processing answers.
\<close>

theorem exhausted_after_budget_plus_one_witness:
  "list_all still_processing (replicate 11 (HttpOk (summary_of 0 1)))
   \<and> (0::int) \<le> 10
   \<and> length (replicate 11 (HttpOk (summary_of 0 1))) = nat 10 + 1
   \<and> status_query_count ''t1''
        (poll_sequence ''t1'' 10 (replicate 11 (HttpOk (summary_of 0 1)) @ [])
           (HttpOk empty_listing) initial_state) = 11
   \<and> ended_with_refresh initial_state
        (poll_sequence ''t1'' 10 (replicate 11 (HttpOk (summary_of 0 1)) @ [])
           (HttpOk empty_listing) initial_state)"
proof -
  have h1: "\<forall>r\<in>set (replicate 11 (HttpOk (summary_of 0 1))). still_processing r"
    by (simp add: isStillProcessing_def summary_of_def)
  have h1': "list_all still_processing (replicate 11 (HttpOk (summary_of 0 1)))"
    using h1 by (simp only: list_all_iff)
  have h2: "(0::int) \<le> 10" by simp
  have h3: "length (replicate 11 (HttpOk (summary_of 0 1))) = nat 10 + 1" by simp
  have s0: "status_query_count ''t1'' initial_state = 0"
    by (simp add: status_query_count_def initial_state_def)
  show ?thesis
    using h1' h2 h3
      exhausted_after_budget_plus_one[OF h1 h2 h3, of "''t1''" "[]"
        "HttpOk empty_listing" initial_state]
    by (simp only: s0 ended_with_refresh_def) simp
qed

text \<open>
  C4. The claim: a sequence that starts with budget N and receives exactly N still-processing
  answers has given up and refreshed the catalog. With the default budget of 10, after ten
  such answers the hook has issued no refresh and the timer of an eleventh attempt is pending:
  the attempt with budget 0 still queries.
\<close>

theorem budget_responses_still_polling:
  "\<not> ended_with_refresh initial_state
       (poll_sequence ''t1'' 10 (replicate 10 (HttpOk (summary_of 0 1))) (HttpOk empty_listing)
          initial_state)"
  by (simp add: eval_nat_numeral ended_with_refresh_def initial_state_def checkUploadComplete_def
      isComplete_def isStillProcessing_def summary_of_def)

subsection \<open>A complete answer\<close>

text \<open>
  C5. When the answer to attempt number k (after k - 1 still-processing answers, within the
  budget) reports at least one processed document and none in processing, the sequence
  issues exactly one catalog refresh and stops: k status queries in all, however many
  further answers would be available, and no timer is pending.
\<close>

theorem resolved_stops_polling:
  assumes "\<forall>r\<in>set pre. still_processing r"
    and "int (length pre) \<le> N"
    and "complete r"
  shows "status_query_count t (poll_sequence t N (pre @ r # rest) lr s) =
           status_query_count t s + length pre + 1
       \<and> refresh_count (poll_sequence t N (pre @ r # rest) lr s) = refresh_count s + 1
       \<and> timers (poll_sequence t N (pre @ r # rest) lr s) = timers s"
proof -
  let ?s1 = "s\<lparr>requests := requests s @ replicate (length pre) (track_request t)\<rparr>"
  let ?s2 = "?s1\<lparr>requests := requests ?s1 @ [track_request t]\<rparr>"
  from assms(3) obtain d where r: "r = HttpOk d" and d: "isComplete d"
    by (cases r) auto
  have "poll_sequence t N (pre @ r # rest) lr s =
        poll_sequence t (N - int (length pre)) (r # rest) lr ?s1"
    using poll_prefix[OF assms(1,2)] by simp
  also have "\<dots> = snd (listDocuments lr ?s2)"
    unfolding r by (rule poll_last_refresh[OF check_complete[OF d]])
  finally have eq: "poll_sequence t N (pre @ r # rest) lr s = snd (listDocuments lr ?s2)" .
  have a: "status_query_count t (snd (listDocuments lr ?s2)) = status_query_count t s + length pre + 1"
    unfolding listDocuments_status_query_count count_track count_replicate by simp
  have b: "refresh_count (snd (listDocuments lr ?s2)) = refresh_count s + 1"
    unfolding listDocuments_refresh_count refresh_track refresh_replicate by simp
  have c: "timers (snd (listDocuments lr ?s2)) = timers s"
    unfolding listDocuments_timers by simp
  show ?thesis unfolding eq using a b c by simp
qed

text \<open>
  Budget 10: three still-processing answers, then a complete one at the fourth attempt; a
  fifth answer is never asked for.
\<close>

theorem resolved_stops_polling_witness:
  "list_all still_processing (replicate 3 (HttpOk (summary_of 0 1)))
   \<and> int (length (replicate 3 (HttpOk (summary_of 0 1)))) \<le> 10
   \<and> complete (HttpOk (summary_of 1 0))
   \<and> status_query_count ''t1''
        (poll_sequence ''t1'' 10
           (replicate 3 (HttpOk (summary_of 0 1)) @ HttpOk (summary_of 1 0) # [HttpOk (summary_of 0 1)])
           (HttpOk empty_listing) initial_state) = 4
   \<and> refresh_count
        (poll_sequence ''t1'' 10
           (replicate 3 (HttpOk (summary_of 0 1)) @ HttpOk (summary_of 1 0) # [HttpOk (summary_of 0 1)])
           (HttpOk empty_listing) initial_state) = 1
   \<and> timers
        (poll_sequence ''t1'' 10
           (replicate 3 (HttpOk (summary_of 0 1)) @ HttpOk (summary_of 1 0) # [HttpOk (summary_of 0 1)])
           (HttpOk empty_listing) initial_state) = []"
proof -
  have h1: "\<forall>r\<in>set (replicate 3 (HttpOk (summary_of 0 1))). still_processing r"
    by (simp add: isStillProcessing_def summary_of_def)
  have h1': "list_all still_processing (replicate 3 (HttpOk (summary_of 0 1)))"
    using h1 by (simp only: list_all_iff)
  have h2: "int (length (replicate 3 (HttpOk (summary_of 0 1)))) \<le> 10" by simp
  have h3: "complete (HttpOk (summary_of 1 0))"
    by (simp add: isComplete_def summary_of_def)
  have s0: "status_query_count ''t1'' initial_state = 0" "refresh_count initial_state = 0"
    "timers initial_state = []"
    by (simp_all add: status_query_count_def refresh_count_def initial_state_def)
  show ?thesis
    using h1' h2 h3
      resolved_stops_polling[OF h1 h2 h3, of "''t1''" "[HttpOk (summary_of 0 1)]"
        "HttpOk empty_listing" initial_state]
    by (simp only: s0) simp
qed

subsection \<open>A file upload that is not ok\<close>

text \<open>
  C6, as the hook behaves: when the upload is answered with a non-success status, the caller
  receives null, the failure is shown to the user as an error notification, the catalog and
  the processing indicators are unchanged, and nothing is scheduled or requested beyond the
  upload itself: no refresh and no polling sequence.
\<close>

theorem uploadFile_not_ok_returns_null:
  "fst (uploadFile f (NotOk code statusText) lr s) = Inr None
   \<and> toasts (snd (uploadFile f (NotOk code statusText) lr s)) =
       toasts s @ [ToastError (''Failed to upload file: Error: Upload failed: '' @ statusText)]
   \<and> documents (snd (uploadFile f (NotOk code statusText) lr s)) = documents s
   \<and> processingDocuments (snd (uploadFile f (NotOk code statusText) lr s)) = processingDocuments s
   \<and> timers (snd (uploadFile f (NotOk code statusText) lr s)) = timers s
   \<and> requests (snd (uploadFile f (NotOk code statusText) lr s)) =
       requests s @ [upload_file_request f]"
  by (simp add: uploadFile_def uploadFile_try_def)

text \<open>
  C6. The claim: when the upload is answered with a non-success status, the caller receives
  an error. \<^verbatim>\<open>uploadFile\<close> catches every error: at HTTP 500 its promise resolves.
\<close>

theorem uploadFile_not_ok_no_error_to_caller:
  "\<not> caller_receives_error
       (fst (uploadFile \<lparr>file_name = ''note.txt'', file_content = ''hello world''\<rparr>
          (NotOk 500 ''Internal Server Error'') (HttpOk empty_listing) initial_state))"
  by (simp add: uploadFile_def uploadFile_try_def)

subsection \<open>Clearing the catalog\<close>

text \<open>
  C7. \<^verbatim>\<open>clearDocuments\<close> always issues the delete-all request. When the response is ok
  the catalog becomes empty and the call returns true; when the request fails the catalog
  is what it was and the call returns false.
\<close>

theorem clearDocuments_empties_only_on_success:
  "requests (snd (clearDocuments r s)) = requests s @ [clear_request]
   \<and> req_method clear_request = DELETE
   \<and> (response_ok r \<longrightarrow>
        documents (snd (clearDocuments r s)) = [] \<and> fst (clearDocuments r s) = Inr True)
   \<and> (\<not> response_ok r' \<longrightarrow>
        documents (snd (clearDocuments r' s)) = documents s
      \<and> fst (clearDocuments r' s) = Inr False)"
proof (intro conjI impI)
  show "requests (snd (clearDocuments r s)) = requests s @ [clear_request]"
    by (cases r) (simp_all add: clearDocuments_def)
  show "req_method clear_request = DELETE" by (simp add: clear_request_def)
next
  assume "response_ok r"
  then show "documents (snd (clearDocuments r s)) = []" "fst (clearDocuments r s) = Inr True"
    by (cases r; simp add: clearDocuments_def)+
next
  assume "\<not> response_ok r'"
  then show "documents (snd (clearDocuments r' s)) = documents s"
    "fst (clearDocuments r' s) = Inr False"
    by (cases r'; simp add: clearDocuments_def)+
qed

text \<open>
  A catalog of one document, cleared with success and with HTTP 500.
\<close>

theorem clearDocuments_empties_only_on_success_witness:
  "response_ok (HttpOk () :: unit fetch_result)
   \<and> \<not> response_ok (NotOk 500 ''Internal Server Error'' :: unit fetch_result)
   \<and> documents (snd (clearDocuments (HttpOk ())
        (initial_state\<lparr>documents := [example_document ''d1'' Processed]\<rparr>))) = []
   \<and> documents (snd (clearDocuments (NotOk 500 ''Internal Server Error'')
        (initial_state\<lparr>documents := [example_document ''d1'' Processed]\<rparr>))) =
       [example_document ''d1'' Processed]"
  using clearDocuments_empties_only_on_success
    [of "HttpOk ()" "initial_state\<lparr>documents := [example_document ''d1'' Processed]\<rparr>"
        "NotOk 500 ''Internal Server Error''"]
  by simp

subsection \<open>The processing indicators\<close>

text \<open>
  C8. The claim: in every reachable state the processing indicators are exactly the
  identifiers of the catalog entries in processing. A refresh that lists document d1 as
  processing establishes this; a successful \<^verbatim>\<open>clearDocuments\<close> after it empties the catalog
  and leaves d1 among the indicators.
\<close>

theorem clear_keeps_processing_indicator:
  "indicator_consistent
     (snd (listDocuments (HttpOk (listing_of [] [example_document ''d1'' Processing]))
        initial_state))
   \<and> documents (snd (clearDocuments (HttpOk ())
        (snd (listDocuments (HttpOk (listing_of [] [example_document ''d1'' Processing]))
           initial_state)))) = []
   \<and> processingDocuments (snd (clearDocuments (HttpOk ())
        (snd (listDocuments (HttpOk (listing_of [] [example_document ''d1'' Processing]))
           initial_state)))) = [''d1'']
   \<and> \<not> indicator_consistent (snd (clearDocuments (HttpOk ())
        (snd (listDocuments (HttpOk (listing_of [] [example_document ''d1'' Processing]))
           initial_state))))"
  by (simp add: indicator_consistent_def clearDocuments_def listDocuments_def
      listDocuments_begin_def listDocuments_end_def listDocuments_try_def allDocs_def
      currentProcessing_def listing_of_def example_document_def initial_state_def)

subsection \<open>A refresh that fails\<close>

text \<open>
  C9. When the list fetch fails, \<^verbatim>\<open>listDocuments\<close> leaves the catalog and the processing
  indicators as they were and resolves with the empty list, which is also what it returns
  for a successful answer with no documents.
\<close>

theorem failed_refresh_returns_empty:
  assumes "\<not> parsed_ok r"
  shows "fst (listDocuments r s) = Inr []
       \<and> documents (snd (listDocuments r s)) = documents s
       \<and> processingDocuments (snd (listDocuments r s)) = processingDocuments s
       \<and> fst (listDocuments r s) = fst (listDocuments (HttpOk empty_listing) s)"
  using assms
  by (cases r) (simp_all add: listDocuments_def listDocuments_begin_def listDocuments_end_def
      listDocuments_try_def allDocs_def empty_listing_def)

text \<open>
  A catalog of one document and a refresh answered with HTTP 500.
\<close>

theorem failed_refresh_returns_empty_witness:
  "\<not> parsed_ok (NotOk 500 ''Internal Server Error'' :: LightRAGDocumentsResponse fetch_result)
   \<and> fst (listDocuments (NotOk 500 ''Internal Server Error'')
        (initial_state\<lparr>documents := [example_document ''d1'' Processed]\<rparr>)) = Inr []
   \<and> documents (snd (listDocuments (NotOk 500 ''Internal Server Error'')
        (initial_state\<lparr>documents := [example_document ''d1'' Processed]\<rparr>))) =
       [example_document ''d1'' Processed]"
  using failed_refresh_returns_empty
    [of "NotOk 500 ''Internal Server Error''"
        "initial_state\<lparr>documents := [example_document ''d1'' Processed]\<rparr>"]
  by simp

subsection \<open>Deleting a document\<close>

text \<open>
  C10. Whatever the document and the answer, \<^verbatim>\<open>deleteDocument\<close> issues one request, and
  its body asks for the stored file to be deleted too; the function takes no argument that
  could change the flag.
\<close>

theorem deleteDocument_always_deletes_file:
  "requests (snd (deleteDocument documentId r s)) = requests s @ [delete_request documentId]
   \<and> req_body (delete_request documentId) = Some (JsonDelete [documentId] True)"
  by (cases r) (simp_all add: deleteDocument_def delete_request_def)

end
